theory Spec2Isabelle
  imports Complex_Main "HOL-Library.Word"
begin

section \<open>Tensors\<close>

text \<open>
  The dispatcher of \<^verbatim>\<open>axlearn/common/flash_attention/utils.py\<close> reads of a tensor only
  its shape and its element type, and \<^verbatim>\<open>_repeat_kv_heads\<close> repeats entries along the head
  axis. Query, key and value are documented as
  \<^verbatim>\<open>[batch_size, seq_len, num_heads, per_head_dim]\<close>, so a tensor is a record of the four
  dimension sizes, the element type and the entries as a nested list in that axis order.
\<close>

datatype dtype = Float32 | BFloat16 | Float16

record 'a tensor =
  shape0 :: nat
  shape1 :: nat
  shape2 :: nat
  shape3 :: nat
  dtype :: dtype
  vals :: "'a list list list list"

text \<open>Exceptions the code raises, as values.\<close>

datatype error =
  ZeroDivisionError | ValueError | RuntimeError | NotImplementedError | AttributeError

section \<open>Head repetition\<close>

text \<open>
  \<^verbatim>\<open>jnp.repeat(x, repeats, axis=-2)\<close>: every entry along the head axis is written
  \<open>repeats\<close> times in a row, so that axis grows by that factor.
\<close>

definition jnp_repeat_heads :: "'a tensor \<Rightarrow> nat \<Rightarrow> 'a tensor" where
  "jnp_repeat_heads x repeats =
     x\<lparr>shape2 := shape2 x * repeats,
       vals := map (map (\<lambda>heads. concat (map (replicate repeats) heads))) (vals x)\<rparr>"

text \<open>
  \<^verbatim>\<open>_repeat_kv_heads(num_q_heads, key_or_value)\<close>. The floor division
  \<^verbatim>\<open>num_q_heads // key_or_value.shape[-2]\<close> raises \<^verbatim>\<open>ZeroDivisionError\<close> on a head axis of
  size 0; nothing else is checked.
\<close>

definition repeat_kv_heads :: "nat \<Rightarrow> 'a tensor \<Rightarrow> error + 'a tensor" where
  "repeat_kv_heads num_q_heads key_or_value =
     (if shape2 key_or_value = 0 then Inl ZeroDivisionError
      else let num_head_repeats = num_q_heads div shape2 key_or_value
           in if num_head_repeats = 1 then Inr key_or_value
              else Inr (jnp_repeat_heads key_or_value num_head_repeats))"

text \<open>
  The slice \<^verbatim>\<open>x[:, :, ::step, :]\<close> of the head-repetition property: every \<open>step\<close>-th
  head, starting with the first. Python refuses a slice step of 0 with
  \<^verbatim>\<open>ValueError\<close>.
\<close>

fun every_nth :: "nat \<Rightarrow> 'a list \<Rightarrow> 'a list" where
  "every_nth step [] = []"
| "every_nth step (x # xs) = x # every_nth step (drop (step - 1) xs)"

definition slice_heads :: "nat \<Rightarrow> 'a tensor \<Rightarrow> error + 'a tensor" where
  "slice_heads step x =
     (if step = 0 then Inl ValueError
      else Inr (x\<lparr>shape2 := (shape2 x + step - 1) div step,
                  vals := map (map (every_nth step)) (vals x)\<rparr>))"

section \<open>Attention biases\<close>

text \<open>
  Modelled from the spec: the module \<^verbatim>\<open>axlearn.common.attention_bias\<close> (the bias classes,
  \<^verbatim>\<open>value()\<close>, \<^verbatim>\<open>split\<close>) is imported by the dispatcher and is not among the sources. The
  definitions of this section follow sections 3, 4.1 and 4.2 of the specification: a bias
  is one of six variants; a mask predicate takes a target and a source position; only a
  MaskFn bias carries \<open>target_positions\<close> and only a SegmentId bias carries segment ids of
  shape \<^verbatim>\<open>[batch, length]\<close>.

  A dense tensor is never computed here. \<^verbatim>\<open>value()\<close> is ``each variant's masking effect,
  summed'', or \<^verbatim>\<open>None\<close> for a bias that is exactly zero, so a dense tensor is kept as the
  expression that names it: a tensor the caller supplied, the effect of one variant, or a
  sum of these.
\<close>

type_synonym mask_fn = "int \<Rightarrow> int \<Rightarrow> bool"

text \<open>
  Positions in a tensor are \<^verbatim>\<open>int32\<close>, the integer type of the numeric runtime: arithmetic
  on them wraps around, and \<open>sint\<close> reads the signed value.
\<close>

type_synonym int32 = "32 word"

datatype 'a dense =
    Given "'a tensor"
  | OfCausal
  | OfSegmentIds "int list list"
  | OfMaskFn mask_fn "int32 list option"
  | DenseSum "'a dense list"

datatype 'a bias =
    ZeroAttentionBias
  | CausalAttentionBias
  | SegmentIdAttentionBias "int list list"
  | MaskFnAttentionBias mask_fn "int32 list option"
  | TensorAttentionBias "'a dense option"
  | CompositeAttentionBias "'a bias list"

text \<open>
  Modelled from the spec: the sum of the summands that are there, which is none, the only
  one, or their sum.
\<close>

fun dense_sum :: "'a dense list \<Rightarrow> 'a dense option" where
  "dense_sum [] = None"
| "dense_sum [v] = Some v"
| "dense_sum vs = Some (DenseSum vs)"

fun bias_value :: "'a bias \<Rightarrow> 'a dense option" where
  "bias_value ZeroAttentionBias = None"
| "bias_value CausalAttentionBias = Some OfCausal"
| "bias_value (SegmentIdAttentionBias segment_ids) = Some (OfSegmentIds segment_ids)"
| "bias_value (MaskFnAttentionBias fn tp) = Some (OfMaskFn fn tp)"
| "bias_value (TensorAttentionBias v) = v"
| "bias_value (CompositeAttentionBias biases) =
     dense_sum (concat (map (\<lambda>b. case bias_value b of None \<Rightarrow> [] | Some v \<Rightarrow> [v]) biases))"

text \<open>
  Modelled from the spec: the flattened leaf list of a bias, nested composites opened.
\<close>

fun leaves :: "'a bias \<Rightarrow> 'a bias list" where
  "leaves (CompositeAttentionBias biases) = concat (map leaves biases)"
| "leaves b = [b]"

text \<open>
  Modelled from the spec: the variants the dispatcher asks \<^verbatim>\<open>split\<close> for, and the test of
  the runtime variant of a leaf. Causal and MaskFn are different variants.
\<close>

datatype bias_class = CausalCls | SegmentIdCls | MaskFnCls

fun isinstance :: "'a bias \<Rightarrow> bias_class \<Rightarrow> bool" where
  "isinstance CausalAttentionBias CausalCls = True"
| "isinstance (SegmentIdAttentionBias _) SegmentIdCls = True"
| "isinstance (MaskFnAttentionBias _ _) MaskFnCls = True"
| "isinstance _ _ = False"

text \<open>
  Modelled from the spec: \<^verbatim>\<open>split\<close>. One output slot holds the matching leaves in their
  order. No match gives the Zero-equivalent sentinel, a single match is returned as it is
  (the dispatcher's comment on \<^verbatim>\<open>from_sequence()\<close> says so too), several stay together as a
  composite. The last output is the composite of the leaves that match none of the
  variants asked for.
\<close>

definition from_sequence :: "'a bias list \<Rightarrow> 'a bias" where
  "from_sequence biases =
     (case biases of [] \<Rightarrow> ZeroAttentionBias | [b] \<Rightarrow> b | _ \<Rightarrow> CompositeAttentionBias biases)"

definition matched :: "'a bias \<Rightarrow> bias_class \<Rightarrow> 'a bias" where
  "matched bias cls = from_sequence (filter (\<lambda>leaf. isinstance leaf cls) (leaves bias))"

definition residual :: "'a bias \<Rightarrow> bias_class list \<Rightarrow> 'a bias" where
  "residual bias clss =
     CompositeAttentionBias (filter (\<lambda>leaf. \<forall>cls \<in> set clss. \<not> isinstance leaf cls) (leaves bias))"

definition split1 :: "'a bias \<Rightarrow> bias_class \<Rightarrow> 'a bias \<times> 'a bias" where
  "split1 bias cls = (matched bias cls, residual bias [cls])"

definition split2 :: "'a bias \<Rightarrow> bias_class \<Rightarrow> bias_class \<Rightarrow> 'a bias \<times> 'a bias \<times> 'a bias" where
  "split2 bias cls1 cls2 = (matched bias cls1, matched bias cls2, residual bias [cls1, cls2])"

text \<open>
  Modelled from the spec: \<^verbatim>\<open>a + b\<close> on biases, a composite that absorbs the leaves of both.
\<close>

definition bias_add :: "'a bias \<Rightarrow> 'a bias \<Rightarrow> 'a bias" where
  "bias_add a b = CompositeAttentionBias (leaves a @ leaves b)"

text \<open>
  Modelled from the spec: the field \<^verbatim>\<open>target_positions\<close>, which only a MaskFn bias has and
  which is optional there. The sentinel of an empty slot and a slot of several leaves have
  none to give, so they read as \<^verbatim>\<open>None\<close>.
\<close>

fun target_positions :: "'a bias \<Rightarrow> int32 list option" where
  "target_positions (MaskFnAttentionBias fn tp) = tp"
| "target_positions _ = None"

section \<open>The dispatcher\<close>

text \<open>
  The kernels are external collaborators. A call of the dispatcher ends in an exception
  or in the call of one kernel, so its result is the exception or that call with its
  arguments. Whether the kernel then returns is not part of the result: the reference
  attention, for one, rejects at its \<^verbatim>\<open>einsum\<close> a key whose head count differs from the
  query's. \<^verbatim>\<open>cudnn_dot_product_attention\<close> is always given \<^verbatim>\<open>dropout_rate=0.0\<close>, which is
  left out. Arguments are in the order query, key, value, bias, then the keyword arguments
  in the order of the source.
\<close>

datatype ('a, 's) kernel_call =
    FlashDecoding "'a tensor" "'a tensor" "'a tensor" "'a dense option" mask_fn "int32 list" 's
  | GpuFlashAttention "'a tensor" "'a tensor" "'a tensor" "'a dense option"
      "int list list option" 's bool
  | CudnnDotProductAttention "'a tensor" "'a tensor" "'a tensor" "'a dense option" 's bool
  | TpuFlashAttention "'a tensor" "'a tensor" "'a tensor" "'a dense option"
      "int list list option" "'a bias option" 's int
  | MhaReference "'a tensor" "'a tensor" "'a tensor" "'a dense option"
      "int list list option" bool 's

text \<open>
  \<^verbatim>\<open>get_segment_ids\<close> (lines 147-162), a closure over \<open>query\<close> and \<open>key\<close>. Of its argument
  it reads \<^verbatim>\<open>value()\<close>, \<^verbatim>\<open>eval_shape()[0]\<close> and the field \<^verbatim>\<open>segment_ids\<close>. On a SegmentId bias
  the leading dimension is the batch size of its ids and the field is the ids. The only
  other argument with a value that \<^verbatim>\<open>split\<close> can hand over is a composite of several
  SegmentId leaves, for which the specification gives neither; reading the field of such
  a composite is modelled as \<^verbatim>\<open>AttributeError\<close>.
\<close>

definition get_segment_ids ::
  "'a tensor \<Rightarrow> 'a tensor \<Rightarrow> 'a bias option \<Rightarrow> error + int list list option" where
  "get_segment_ids query key segment_ids =
     (case segment_ids of
        None \<Rightarrow> Inr None
      | Some sb \<Rightarrow>
          if bias_value sb = None then Inr None
          else if shape1 query \<noteq> shape1 key then Inl ValueError
          else (case sb of
                  SegmentIdAttentionBias ids \<Rightarrow>
                    if length ids \<noteq> shape0 query then Inl ValueError else Inr (Some ids)
                | _ \<Rightarrow> Inl AttributeError))"

text \<open>
  The GPU decoding case (lines 167-192). \<^verbatim>\<open>split\<close> never yields \<^verbatim>\<open>None\<close>, so of the test
  \<^verbatim>\<open>mask is None or mask.target_positions is None\<close> the second half decides. Key and value
  are passed on as they came. \<^verbatim>\<open>mask.target_positions + 1\<close> adds 1 to every entry of an
  \<^verbatim>\<open>int32\<close> tensor, so it wraps around at the largest value.
\<close>

definition gpu_decoding ::
  "'s \<Rightarrow> 'a tensor \<Rightarrow> 'a tensor \<Rightarrow> 'a tensor \<Rightarrow> 'a bias \<Rightarrow> error + ('a, 's) kernel_call" where
  "gpu_decoding softmax_scale query key val bias =
     (case split1 bias MaskFnCls of
        (mask_bias, explicit_bias) \<Rightarrow>
          (case mask_bias of
             MaskFnAttentionBias mask_fn (Some tp) \<Rightarrow>
               let kv_seq_len = map (\<lambda>p. p + 1) tp
               in Inr (FlashDecoding query key val (bias_value explicit_bias) mask_fn
                         kv_seq_len softmax_scale)
           | _ \<Rightarrow> Inl RuntimeError))"

text \<open>The GPU case for longer queries (lines 194-241).\<close>

definition gpu_attention ::
  "'s \<Rightarrow> 'a tensor \<Rightarrow> 'a tensor \<Rightarrow> 'a tensor \<Rightarrow> 'a bias \<Rightarrow> error + ('a, 's) kernel_call" where
  "gpu_attention softmax_scale query key val bias =
     (if shape1 query \<noteq> shape1 key then Inl NotImplementedError
      else case repeat_kv_heads (shape2 query) key of
        Inl e \<Rightarrow> Inl e
      | Inr key' \<Rightarrow>
      (case repeat_kv_heads (shape2 query) val of
        Inl e \<Rightarrow> Inl e
      | Inr val' \<Rightarrow>
      (case split2 bias CausalCls SegmentIdCls of
        (causal, segment_ids, explicit_bias) \<Rightarrow>
          if bias_value segment_ids \<noteq> None
             \<or> bias_value explicit_bias \<noteq> None
             \<or> Float32 \<in> set [dtype query, dtype key', dtype val']
          then (case get_segment_ids query key' (Some segment_ids) of
                  Inl e \<Rightarrow> Inl e
                | Inr ids \<Rightarrow>
                    Inr (GpuFlashAttention query key' val' (bias_value explicit_bias) ids
                           softmax_scale (bias_value causal \<noteq> None)))
          else Inr (CudnnDotProductAttention query key' val'
                      (bias_value (bias_add explicit_bias segment_ids))
                      softmax_scale (bias_value causal \<noteq> None)))))"

text \<open>The TPU case (lines 243-267).\<close>

definition tpu_attention ::
  "'s \<Rightarrow> int \<Rightarrow> 'a tensor \<Rightarrow> 'a tensor \<Rightarrow> 'a tensor \<Rightarrow> 'a bias \<Rightarrow> error + ('a, 's) kernel_call" where
  "tpu_attention softmax_scale block_size query key val bias =
     (case repeat_kv_heads (shape2 query) key of
        Inl e \<Rightarrow> Inl e
      | Inr key' \<Rightarrow>
      (case repeat_kv_heads (shape2 query) val of
        Inl e \<Rightarrow> Inl e
      | Inr val' \<Rightarrow>
      (case split2 bias MaskFnCls SegmentIdCls of
        (mask_bias, segment_ids, explicit_bias) \<Rightarrow>
          (case get_segment_ids query key' (Some segment_ids) of
             Inl e \<Rightarrow> Inl e
           | Inr ids \<Rightarrow>
               Inr (TpuFlashAttention query key' val' (bias_value explicit_bias) ids
                      (case mask_bias of ZeroAttentionBias \<Rightarrow> None | _ \<Rightarrow> Some mask_bias)
                      softmax_scale block_size)))))"

text \<open>The case of \<^verbatim>\<open>"cpu"\<close> and \<^verbatim>\<open>"xla"\<close> (lines 269-289): the reference attention.\<close>

definition xla_attention ::
  "'s \<Rightarrow> 'a tensor \<Rightarrow> 'a tensor \<Rightarrow> 'a tensor \<Rightarrow> 'a bias \<Rightarrow> error + ('a, 's) kernel_call" where
  "xla_attention softmax_scale query key val bias =
     (case repeat_kv_heads (shape2 query) key of
        Inl e \<Rightarrow> Inl e
      | Inr key' \<Rightarrow>
      (case repeat_kv_heads (shape2 query) val of
        Inl e \<Rightarrow> Inl e
      | Inr val' \<Rightarrow>
      (case split2 bias CausalCls SegmentIdCls of
        (causal, segment_ids, explicit_bias) \<Rightarrow>
          (case get_segment_ids query key' (Some segment_ids) of
             Inl e \<Rightarrow> Inl e
           | Inr ids \<Rightarrow>
               Inr (MhaReference query key' val' (bias_value explicit_bias) ids
                      (bias_value causal \<noteq> None) softmax_scale)))))"

text \<open>
  \<^verbatim>\<open>jit_attn\<close> (lines 124-291), with the \<open>softmax_scale\<close> and \<open>block_size\<close> its builder
  captured. Python's \<^verbatim>\<open>%\<close> raises \<^verbatim>\<open>ZeroDivisionError\<close> on a zero \<open>block_size\<close>; the
  \<^verbatim>\<open>and\<close> before it evaluates it only when the call is not a GPU decoding step. For other
  divisors \<^verbatim>\<open>%\<close> is the floored remainder, as \<open>mod\<close> on \<open>int\<close> is.
\<close>

definition jit_attn ::
  "'s \<Rightarrow> int \<Rightarrow> string \<Rightarrow> 'a tensor \<Rightarrow> 'a tensor \<Rightarrow> 'a tensor \<Rightarrow> 'a bias
     \<Rightarrow> error + ('a, 's) kernel_call" where
  "jit_attn softmax_scale block_size backend query key val bias =
     (let is_gpu_decoding = (shape1 query = 1 \<and> backend = ''gpu'')
      in if \<not> is_gpu_decoding \<and> block_size = 0 then Inl ZeroDivisionError
      else
        let backend1 = (if \<not> is_gpu_decoding \<and> int (shape1 query) mod block_size \<noteq> 0
                        then ''xla'' else backend);
            backend2 = (if \<not> is_gpu_decoding \<and> shape1 query = 1 then ''xla'' else backend1);
            bias2 = (if \<not> is_gpu_decoding \<and> shape1 query = 1
                     then TensorAttentionBias (bias_value bias) else bias);
            bias3 = CompositeAttentionBias [bias2]
        in if backend2 = ''gpu'' then
             (if shape1 query = 1 then gpu_decoding softmax_scale query key val bias3
              else gpu_attention softmax_scale query key val bias3)
           else if backend2 = ''tpu'' then
             tpu_attention softmax_scale block_size query key val bias3
           else if backend2 \<in> set [''cpu'', ''xla''] then
             xla_attention softmax_scale query key val bias3
           else Inl NotImplementedError)"

text \<open>
  \<^verbatim>\<open>flash_attention_implementation(backend, softmax_scale=..., block_size=...)\<close> returns
  \<^verbatim>\<open>jit_attn\<close> with \<open>backend\<close> as the default of its keyword argument; it checks nothing
  itself.
\<close>

definition flash_attention_implementation ::
  "string \<Rightarrow> 's \<Rightarrow> int \<Rightarrow> 'a tensor \<Rightarrow> 'a tensor \<Rightarrow> 'a tensor \<Rightarrow> 'a bias
     \<Rightarrow> error + ('a, 's) kernel_call" where
  "flash_attention_implementation backend softmax_scale block_size =
     jit_attn softmax_scale block_size backend"

section \<open>Reference attention: the masking of the logits\<close>

text \<open>
  \<^verbatim>\<open>mha_reference\<close> (lines 57-81) computes the logits \<^verbatim>\<open>[batch, heads, target, source]\<close> by an
  \<^verbatim>\<open>einsum\<close>, masks them (lines 62-77) and hands them to \<^verbatim>\<open>softmax_with_biases\<close>. The
  masking is modelled; the floating-point products and the softmax are not. \<open>NEG_INF\<close> is
  imported from the bias module, which is not among the sources, so it is a parameter.

  \<^verbatim>\<open>jnp.where(mask, NEG_INF, logits)\<close>, for a mask given by its entry at each index (which
  is how a mask of shape \<^verbatim>\<open>[b, 1, t, s]\<close> or \<^verbatim>\<open>[1, 1, t, s]\<close> broadcasts against the logits):
\<close>

definition jnp_where ::
  "(nat \<Rightarrow> nat \<Rightarrow> nat \<Rightarrow> nat \<Rightarrow> bool) \<Rightarrow> 'a \<Rightarrow> 'a list list list list \<Rightarrow> 'a list list list list" where
  "jnp_where mask_at c x =
     map (\<lambda>b. map (\<lambda>n. map (\<lambda>t. map (\<lambda>s. if mask_at b n t s then c else x ! b ! n ! t ! s)
                                    [0..<length (x ! b ! n ! t)])
                          [0..<length (x ! b ! n)])
                [0..<length (x ! b)])
         [0..<length x]"

text \<open>
  Lines 64-69: \<^verbatim>\<open>jax.lax.ne(source_segment_ids, target_segment_ids)[:, None, ...]\<close>, the
  target ids expanded at the last axis and the source ids at the one before.
\<close>

definition segment_mask :: "int list list \<Rightarrow> nat \<Rightarrow> nat \<Rightarrow> nat \<Rightarrow> nat \<Rightarrow> bool" where
  "segment_mask segment_ids b n t s = (segment_ids ! b ! s \<noteq> segment_ids ! b ! t)"

text \<open>
  Lines 73-76: \<^verbatim>\<open>broadcasted_iota\<close> over \<^verbatim>\<open>(q.shape[1], k.shape[1])\<close> along dimension 0 and
  along dimension 1, and \<^verbatim>\<open>(row_ids < col_ids)[None, None, :, :]\<close>.
\<close>

definition row_ids :: "nat \<Rightarrow> nat \<Rightarrow> int" where
  "row_ids t s = int t"

definition col_ids :: "nat \<Rightarrow> nat \<Rightarrow> int" where
  "col_ids t s = int s"

definition causal_mask :: "nat \<Rightarrow> nat \<Rightarrow> nat \<Rightarrow> nat \<Rightarrow> bool" where
  "causal_mask b n t s = (row_ids t s < col_ids t s)"

definition mha_reference_logits ::
  "'a \<Rightarrow> 'a list list list list \<Rightarrow> int list list option \<Rightarrow> bool \<Rightarrow> 'a list list list list" where
  "mha_reference_logits neg_inf logits segment_ids causal =
     (let logits1 = (case segment_ids of
                       None \<Rightarrow> logits
                     | Some ids \<Rightarrow> jnp_where (segment_mask ids) neg_inf logits);
          logits2 = (if causal then jnp_where causal_mask neg_inf logits1 else logits1)
      in logits2)"

section \<open>Views of a result\<close>

text \<open>Whether a kernel call is the call of the reference attention.\<close>

fun is_reference_call :: "('a, 's) kernel_call \<Rightarrow> bool" where
  "is_reference_call (MhaReference q k v b ids c sc) = True"
| "is_reference_call _ = False"

text \<open>The \<open>kv_seq_len\<close> of a call of the decoding kernel; no other kernel has one.\<close>

fun call_kv_seq_len :: "('a, 's) kernel_call \<Rightarrow> int32 list" where
  "call_kv_seq_len (FlashDecoding q k v b fn kv_seq_len sc) = kv_seq_len"
| "call_kv_seq_len _ = []"

text \<open>
  Modelled from the spec: the decoding kernel \<^verbatim>\<open>flash_decoding\<close> is not among the sources.
  The specification calls \<open>kv_seq_len\<close> the effective key/value length of a batch row: the
  source positions within it are those from 0 up to, and without, that length.
\<close>

definition in_kv_seq_len :: "int32 \<Rightarrow> int \<Rightarrow> bool" where
  "in_kv_seq_len kv_len source = (0 \<le> source \<and> source < sint kv_len)"

text \<open>The segment ids a kernel is given; the two kernels without such an argument get none.\<close>

fun call_segment_ids :: "('a, 's) kernel_call \<Rightarrow> int list list option" where
  "call_segment_ids (GpuFlashAttention q k v b ids sc c) = ids"
| "call_segment_ids (TpuFlashAttention q k v b ids m sc bs) = ids"
| "call_segment_ids (MhaReference q k v b ids c sc) = ids"
| "call_segment_ids _ = None"

section \<open>Inputs for the examples\<close>

text \<open>\<^verbatim>\<open>jnp.full\<close>: a tensor of the given shape and element type, every entry the same.\<close>

definition full :: "nat \<Rightarrow> nat \<Rightarrow> nat \<Rightarrow> nat \<Rightarrow> dtype \<Rightarrow> 'a \<Rightarrow> 'a tensor" where
  "full b t h d ty x =
     \<lparr>shape0 = b, shape1 = t, shape2 = h, shape3 = d, dtype = ty,
      vals = replicate b (replicate t (replicate h (replicate d x)))\<rparr>"

text \<open>A key of one batch row, one position and two heads.\<close>

definition kv_example :: "real tensor" where
  "kv_example = \<lparr>shape0 = 1, shape1 = 1, shape2 = 2, shape3 = 1, dtype = BFloat16,
                  vals = [[[[10], [20]]]]\<rparr>"

text \<open>The causal predicate on a target and a source position.\<close>

definition causal_fn :: mask_fn where
  "causal_fn target source = (source \<le> target)"

text \<open>Logits of one batch row, one head, four target and four source positions.\<close>

definition logits_example :: "real list list list list" where
  "logits_example = [[[[1, 2, 3, 4], [5, 6, 7, 8], [9, 10, 11, 12], [13, 14, 15, 16]]]]"

section \<open>Lemmas\<close>

lemma every_nth_repeat:
  "0 < r \<Longrightarrow> every_nth r (concat (map (replicate r) xs)) = xs"
proof (induction xs)
  case Nil
  then show ?case by simp
next
  case (Cons x xs)
  from \<open>0 < r\<close> obtain r' where r: "r = Suc r'" by (cases r) auto
  have "every_nth r (concat (map (replicate r) (x # xs)))
          = x # every_nth r (drop r' (replicate r' x @ concat (map (replicate r) xs)))"
    by (simp add: r)
  also have "drop r' (replicate r' x @ concat (map (replicate r) xs))
          = concat (map (replicate r) xs)"
    by simp
  finally show ?case using Cons by simp
qed

lemma every_nth_one: "every_nth (Suc 0) xs = xs"
  by (induction xs) auto

lemma ceil_div_mult: "0 < r \<Longrightarrow> (h * r + r - Suc 0) div r = (h::nat)"
proof -
  assume r: "0 < r"
  then obtain r' where r': "r = Suc r'" by (cases r) auto
  have "h * r + r - Suc 0 = h * r + r'" using r' by simp
  also have "\<dots> div r = h + r' div r" using r by (intro div_mult_self3) simp
  also have "r' div r = 0" using r' by simp
  finally show ?thesis by simp
qed

lemma jnp_repeat_slice:
  "0 < r \<Longrightarrow> slice_heads r (jnp_repeat_heads x r) = Inr x"
  by (simp add: slice_heads_def jnp_repeat_heads_def every_nth_repeat map_idI ceil_div_mult)

lemma replicate_2: "replicate 2 x = [x, x]"
  by (simp add: numeral_2_eq_2)

lemma matched_single: "matched (CompositeAttentionBias [b]) cls = matched b cls"
  by (simp add: matched_def)

lemma residual_single: "residual (CompositeAttentionBias [b]) clss = residual b clss"
  by (simp add: residual_def)

lemma get_segment_ids_zero: "get_segment_ids q k (Some ZeroAttentionBias) = Inr None"
  by (simp add: get_segment_ids_def)

lemma sum_case_None_iff: "dense_sum vs = None \<longleftrightarrow> vs = []"
  by (cases vs rule: dense_sum.cases) simp_all

lemma bias_value_None_iff:
  "bias_value b = None \<longleftrightarrow> (\<forall>l \<in> set (leaves b). bias_value l = None)"
proof (induction b)
  case (CompositeAttentionBias bs)
  have "bias_value (CompositeAttentionBias bs) = None
          \<longleftrightarrow> concat (map (\<lambda>b. case bias_value b of None \<Rightarrow> [] | Some v \<Rightarrow> [v]) bs) = []"
    by (simp only: bias_value.simps sum_case_None_iff)
  also have "\<dots> \<longleftrightarrow> (\<forall>b \<in> set bs. bias_value b = None)"
    by (auto split: option.splits)
  also have "\<dots> \<longleftrightarrow> (\<forall>b \<in> set bs. \<forall>l \<in> set (leaves b). bias_value l = None)"
    using CompositeAttentionBias.IH by blast
  finally show ?case by auto
qed simp_all

lemma bias_value_composite_None:
  "\<forall>l \<in> set ls. bias_value l = None \<Longrightarrow> bias_value (CompositeAttentionBias ls) = None"
  by (simp only: bias_value.simps sum_case_None_iff) (auto split: option.splits)

lemma bias_value_bias_add_None:
  "bias_value a = None \<Longrightarrow> bias_value b = None \<Longrightarrow> bias_value (bias_add a b) = None"
  unfolding bias_add_def
  by (rule bias_value_composite_None) (auto simp: bias_value_None_iff [of a] bias_value_None_iff [of b])

lemma jit_attn_decode:
  "shape1 q = 1 \<Longrightarrow>
     jit_attn sc bs ''gpu'' q k v bias = gpu_decoding sc q k v (CompositeAttentionBias [bias])"
  by (simp add: jit_attn_def)

lemma jit_attn_fallback:
  assumes "bs \<noteq> 0" and "\<not> (shape1 q = 1 \<and> backend = ''gpu'')"
    and "int (shape1 q) mod bs \<noteq> 0 \<or> shape1 q = 1"
  shows "jit_attn sc bs backend q k v bias
           = xla_attention sc q k v
               (CompositeAttentionBias
                  [if shape1 q = 1 then TensorAttentionBias (bias_value bias) else bias])"
  using assms by (auto simp add: jit_attn_def Let_def)

lemma jit_attn_kept:
  assumes "bs \<noteq> 0" and "int (shape1 q) mod bs = 0" and "shape1 q \<noteq> 1"
  shows "jit_attn sc bs backend q k v bias
           = (if backend = ''gpu'' then gpu_attention sc q k v (CompositeAttentionBias [bias])
              else if backend = ''tpu'' then tpu_attention sc bs q k v (CompositeAttentionBias [bias])
              else if backend \<in> set [''cpu'', ''xla'']
                then xla_attention sc q k v (CompositeAttentionBias [bias])
              else Inl NotImplementedError)"
  using assms by (simp add: jit_attn_def Let_def)

lemma xla_attention_reference_or_error:
  "xla_attention sc q k v bias = Inr c \<Longrightarrow> is_reference_call c"
  by (auto simp: xla_attention_def split2_def split: sum.splits)

lemma gpu_attention_not_reference:
  "gpu_attention sc q k v bias = Inr c \<Longrightarrow> \<not> is_reference_call c"
  by (auto simp: gpu_attention_def split2_def split: sum.splits if_splits)

lemma gpu_decoding_not_reference:
  "gpu_decoding sc q k v bias = Inr c \<Longrightarrow> \<not> is_reference_call c"
  by (auto simp: gpu_decoding_def split1_def split: sum.splits if_splits bias.splits option.splits)

lemma repeat_kv_heads_keeps:
  "repeat_kv_heads n x = Inr x' \<Longrightarrow>
     dtype x' = dtype x \<and> shape0 x' = shape0 x \<and> shape1 x' = shape1 x \<and> shape3 x' = shape3 x"
  by (auto simp: repeat_kv_heads_def jnp_repeat_heads_def Let_def split: if_splits)

lemma gpu_attention_choice:
  assumes len: "shape1 q = shape1 k"
    and k': "repeat_kv_heads (shape2 q) k = Inr k'"
    and v': "repeat_kv_heads (shape2 q) v = Inr v'"
  shows "gpu_attention sc q k v (CompositeAttentionBias [bias])
           = (if bias_value (matched bias SegmentIdCls) \<noteq> None
                 \<or> bias_value (residual bias [CausalCls, SegmentIdCls]) \<noteq> None
                 \<or> Float32 \<in> set [dtype q, dtype k, dtype v]
              then (case get_segment_ids q k' (Some (matched bias SegmentIdCls)) of
                      Inl e \<Rightarrow> Inl e
                    | Inr ids \<Rightarrow>
                        Inr (GpuFlashAttention q k' v'
                               (bias_value (residual bias [CausalCls, SegmentIdCls])) ids sc
                               (bias_value (matched bias CausalCls) \<noteq> None)))
              else Inr (CudnnDotProductAttention q k' v' None sc
                          (bias_value (matched bias CausalCls) \<noteq> None)))"
proof -
  have d: "dtype k' = dtype k" "dtype v' = dtype v"
    using repeat_kv_heads_keeps [OF k'] repeat_kv_heads_keeps [OF v'] by simp_all
  show ?thesis
  proof (cases "bias_value (matched bias SegmentIdCls) \<noteq> None
                 \<or> bias_value (residual bias [CausalCls, SegmentIdCls]) \<noteq> None
                 \<or> Float32 \<in> set [dtype q, dtype k, dtype v]")
    case True
    then show ?thesis
      using len k' v' d
      by (simp add: gpu_attention_def split2_def matched_single residual_single)
  next
    case False
    then have n: "bias_value (matched bias SegmentIdCls) = None"
      "bias_value (residual bias [CausalCls, SegmentIdCls]) = None" by simp_all
    have "bias_value (bias_add (residual bias [CausalCls, SegmentIdCls])
                               (matched bias SegmentIdCls)) = None"
      by (rule bias_value_bias_add_None) (rule n)+
    with False show ?thesis
      using len k' v' d
      by (simp add: gpu_attention_def split2_def matched_single residual_single)
  qed
qed

lemma dense_sum_option: "dense_sum (case d of None \<Rightarrow> [] | Some v \<Rightarrow> [v]) = d"
  by (cases d) simp_all

lemma gpu_decoding_result:
  "gpu_decoding sc q k v (CompositeAttentionBias [bias])
     = (case matched bias MaskFnCls of
          MaskFnAttentionBias fn (Some tp) \<Rightarrow>
            Inr (FlashDecoding q k v (bias_value (residual bias [MaskFnCls])) fn
                   (map (\<lambda>p. p + 1) tp) sc)
        | _ \<Rightarrow> Inl RuntimeError)"
  by (simp add: gpu_decoding_def split1_def matched_single residual_single Let_def
      split: bias.splits option.splits)

lemma full_shape [simp]:
  "shape0 (full b t h d ty x) = b" "shape1 (full b t h d ty x) = t"
  "shape2 (full b t h d ty x) = h" "shape3 (full b t h d ty x) = d"
  "dtype (full b t h d ty x) = ty"
  by (simp_all add: full_def)

lemma repeat_kv_heads_same [simp]:
  "h \<noteq> 0 \<Longrightarrow> repeat_kv_heads h (full b t h d ty x) = Inr (full b t h d ty x)"
  by (simp add: repeat_kv_heads_def)

lemma get_segment_ids_segment:
  "get_segment_ids q k (Some (SegmentIdAttentionBias ids))
     = (if shape1 q \<noteq> shape1 k then Inl ValueError
        else if length ids \<noteq> shape0 q then Inl ValueError
        else Inr (Some ids))"
  by (simp add: get_segment_ids_def)

lemma repeat_kv_heads_Inr:
  "shape2 x \<noteq> 0 \<Longrightarrow> \<exists>x'. repeat_kv_heads n x = Inr x' \<and> shape1 x' = shape1 x"
  by (simp add: repeat_kv_heads_def jnp_repeat_heads_def Let_def)

lemma xla_attention_segment:
  assumes m: "matched bias SegmentIdCls = SegmentIdAttentionBias ids"
    and k: "shape2 k \<noteq> 0" and v: "shape2 v \<noteq> 0"
  shows "if shape1 q \<noteq> shape1 k \<or> length ids \<noteq> shape0 q
         then xla_attention sc q k v (CompositeAttentionBias [bias]) = Inl ValueError
         else \<exists>c. xla_attention sc q k v (CompositeAttentionBias [bias]) = Inr c
                \<and> call_segment_ids c = Some ids"
proof -
  from repeat_kv_heads_Inr [OF k, of "shape2 q"] obtain k'
    where k': "repeat_kv_heads (shape2 q) k = Inr k'" "shape1 k' = shape1 k" by blast
  from repeat_kv_heads_Inr [OF v, of "shape2 q"] obtain v'
    where v': "repeat_kv_heads (shape2 q) v = Inr v'" by blast
  show ?thesis
    by (simp add: xla_attention_def k' v' split2_def matched_single residual_single m
        get_segment_ids_segment)
qed

lemma tpu_attention_segment:
  assumes m: "matched bias SegmentIdCls = SegmentIdAttentionBias ids"
    and k: "shape2 k \<noteq> 0" and v: "shape2 v \<noteq> 0"
  shows "if shape1 q \<noteq> shape1 k \<or> length ids \<noteq> shape0 q
         then tpu_attention sc bs q k v (CompositeAttentionBias [bias]) = Inl ValueError
         else \<exists>c. tpu_attention sc bs q k v (CompositeAttentionBias [bias]) = Inr c
                \<and> call_segment_ids c = Some ids"
proof -
  from repeat_kv_heads_Inr [OF k, of "shape2 q"] obtain k'
    where k': "repeat_kv_heads (shape2 q) k = Inr k'" "shape1 k' = shape1 k" by blast
  from repeat_kv_heads_Inr [OF v, of "shape2 q"] obtain v'
    where v': "repeat_kv_heads (shape2 q) v = Inr v'" by blast
  show ?thesis
    by (simp add: tpu_attention_def k' v' split2_def matched_single residual_single m
        get_segment_ids_segment)
qed

lemma gpu_attention_segment:
  assumes m: "matched bias SegmentIdCls = SegmentIdAttentionBias ids"
    and k: "shape2 k \<noteq> 0" and v: "shape2 v \<noteq> 0"
  shows "if shape1 q \<noteq> shape1 k
         then gpu_attention sc q k v (CompositeAttentionBias [bias]) = Inl NotImplementedError
         else if length ids \<noteq> shape0 q
         then gpu_attention sc q k v (CompositeAttentionBias [bias]) = Inl ValueError
         else \<exists>c. gpu_attention sc q k v (CompositeAttentionBias [bias]) = Inr c
                \<and> call_segment_ids c = Some ids"
proof -
  from repeat_kv_heads_Inr [OF k, of "shape2 q"] obtain k'
    where k': "repeat_kv_heads (shape2 q) k = Inr k'" "shape1 k' = shape1 k" by blast
  from repeat_kv_heads_Inr [OF v, of "shape2 q"] obtain v'
    where v': "repeat_kv_heads (shape2 q) v = Inr v'" by blast
  show ?thesis
    by (simp add: gpu_attention_def k' v' split2_def matched_single residual_single m
        get_segment_ids_segment)
qed

lemma jnp_where_nth:
  assumes "b < length x" "n < length (x ! b)" "t < length (x ! b ! n)"
    "s < length (x ! b ! n ! t)"
  shows "jnp_where mask_at c x ! b ! n ! t ! s
           = (if mask_at b n t s then c else x ! b ! n ! t ! s)"
  using assms by (simp add: jnp_where_def)

lemma jnp_where_shape:
  "length (jnp_where mask_at c x) = length x"
  "b < length x \<Longrightarrow> length (jnp_where mask_at c x ! b) = length (x ! b)"
  "b < length x \<Longrightarrow> n < length (x ! b) \<Longrightarrow>
     length (jnp_where mask_at c x ! b ! n) = length (x ! b ! n)"
  "b < length x \<Longrightarrow> n < length (x ! b) \<Longrightarrow> t < length (x ! b ! n) \<Longrightarrow>
     length (jnp_where mask_at c x ! b ! n ! t) = length (x ! b ! n ! t)"
  by (simp_all add: jnp_where_def)

lemma sint_succ_int32:
  fixes p :: int32
  assumes "sint p < 2147483647"
  shows "sint (p + 1) = sint p + 1"
proof -
  have lo: "- (2 ^ 31) \<le> sint p" using sint_ge [of p] by simp
  have "sint (p + 1) = signed_take_bit 31 (sint p + 1)"
    by (simp add: sint_word_ariths)
  also have "\<dots> = sint p + 1"
    using lo assms by (intro signed_take_bit_int_eq_self) simp_all
  finally show ?thesis .
qed

lemma in_kv_seq_len_succ:
  fixes p :: int32
  assumes "sint p < 2147483647"
  shows "in_kv_seq_len (p + 1) s \<longleftrightarrow> 0 \<le> s \<and> s \<le> sint p"
  by (auto simp: in_kv_seq_len_def sint_succ_int32 [OF assms])


lemma filter_upto_5:
  assumes "\<And>s :: int. P s \<longleftrightarrow> 0 \<le> s \<and> s \<le> 5"
  shows "filter P [0, 1, 2, 3, 4, 5, 6, 7] = [0, 1, 2, 3, 4, 5]"
  by (simp add: assms)



lemma repeat_kv_heads_Inr_ex:
  "shape2 x \<noteq> 0 \<Longrightarrow> \<exists>x'. repeat_kv_heads n x = Inr x'"
  by (simp add: repeat_kv_heads_def Let_def)

section \<open>Claims about head repetition\<close>

text \<open>
  C9. When the head count of a key or value tensor divides the query head count with
  quotient \<open>r\<close>, \<^verbatim>\<open>_repeat_kv_heads\<close> returns a tensor of which every \<open>r\<close>-th head, taken along
  the head axis, is the original tensor again; and when \<open>r = 1\<close> it returns its argument
  itself. The query has at least one head, so that \<open>r\<close> is a slice step Python accepts.
\<close>

theorem repeat_kv_heads_slice_recovers:
  assumes "0 < num_q_heads" and "shape2 kv dvd num_q_heads"
  shows "\<exists>kv'. repeat_kv_heads num_q_heads kv = Inr kv'
           \<and> slice_heads (num_q_heads div shape2 kv) kv' = Inr kv
           \<and> (num_q_heads div shape2 kv = 1 \<longrightarrow> kv' = kv)"
proof -
  from assms have h: "0 < shape2 kv" by (cases "shape2 kv") auto
  from assms h have r: "0 < num_q_heads div shape2 kv"
    by (auto elim!: dvdE)
  show ?thesis
  proof (cases "num_q_heads div shape2 kv = 1")
    case True
    have "slice_heads (Suc 0) kv = Inr kv"
      by (simp add: slice_heads_def every_nth_one map_idI)
    with True h show ?thesis by (simp add: repeat_kv_heads_def)
  next
    case False
    with h r show ?thesis by (simp add: repeat_kv_heads_def jnp_repeat_slice)
  qed
qed

theorem repeat_kv_heads_slice_recovers_witness:
  "repeat_kv_heads 4 kv_example
     = Inr \<lparr>shape0 = 1, shape1 = 1, shape2 = 4, shape3 = 1, dtype = BFloat16,
            vals = [[[[10], [10], [20], [20]]]]\<rparr>
   \<and> slice_heads 2 \<lparr>shape0 = 1, shape1 = 1, shape2 = 4, shape3 = 1, dtype = BFloat16,
            vals = [[[[10], [10], [20], [20]]]]\<rparr> = Inr kv_example
   \<and> repeat_kv_heads 2 kv_example = Inr kv_example"
proof -
  have pre4: "0 < (4::nat)" "shape2 kv_example dvd 4"
    and pre2: "0 < (2::nat)" "shape2 kv_example dvd 2"
    by (simp_all add: kv_example_def)
  have q4: "4 div shape2 kv_example = 2" and q2: "2 div shape2 kv_example = 1"
    by (simp_all add: kv_example_def)
  have e: "repeat_kv_heads 4 kv_example
     = Inr \<lparr>shape0 = 1, shape1 = 1, shape2 = 4, shape3 = 1, dtype = BFloat16,
            vals = [[[[10], [10], [20], [20]]]]\<rparr>"
    by (simp add: kv_example_def repeat_kv_heads_def jnp_repeat_heads_def replicate_2)
  from repeat_kv_heads_slice_recovers [OF pre4] e q4
  have s: "slice_heads 2 \<lparr>shape0 = 1, shape1 = 1, shape2 = 4, shape3 = 1, dtype = BFloat16,
            vals = [[[[10], [10], [20], [20]]]]\<rparr> = Inr kv_example"
    by auto
  from repeat_kv_heads_slice_recovers [OF pre2] q2
  have i: "repeat_kv_heads 2 kv_example = Inr kv_example"
    by auto
  from e s i show ?thesis by blast
qed




section \<open>Claims about the dispatcher\<close>

text \<open>
  C1. For a block size other than 0: a call that is not a GPU decoding step (target length
  1 on \<^verbatim>\<open>"gpu"\<close>) and whose target length is not a multiple of the block size gives what
  the same call with backend \<^verbatim>\<open>"xla"\<close> gives, whatever backend was asked for: the outcome
  of the reference branch, which calls no kernel but the reference attention. Conversely,
  on \<^verbatim>\<open>"gpu"\<close> with a target length that is a multiple of the block size, a plain causal
  bias and equal query and key lengths, the call never ends in the reference attention;
  where the query is longer than one position and head repetition succeeds, it ends in
  one of the two GPU kernels with the causal flag set and neither bias nor segment ids.
\<close>

theorem jit_attn_divisibility_fallback:
  assumes "bs \<noteq> 0"
  shows "(\<not> (shape1 q = 1 \<and> backend = ''gpu'') \<and> int (shape1 q) mod bs \<noteq> 0 \<longrightarrow>
            jit_attn sc bs backend q k v bias = jit_attn sc bs ''xla'' q k v bias
            \<and> jit_attn sc bs backend q k v bias
                = xla_attention sc q k v
                    (CompositeAttentionBias
                       [if shape1 q = 1 then TensorAttentionBias (bias_value bias) else bias])
            \<and> (\<forall>c. jit_attn sc bs backend q k v bias = Inr c \<longrightarrow> is_reference_call c))
       \<and> (int (shape1 q) mod bs = 0 \<and> shape1 q = shape1 k \<longrightarrow>
            (\<forall>c. jit_attn sc bs ''gpu'' q k v CausalAttentionBias = Inr c
                   \<longrightarrow> \<not> is_reference_call c)
            \<and> (\<forall>k' v'. shape1 q \<noteq> 1 \<and> repeat_kv_heads (shape2 q) k = Inr k'
                   \<and> repeat_kv_heads (shape2 q) v = Inr v' \<longrightarrow>
                 jit_attn sc bs ''gpu'' q k v CausalAttentionBias
                   = (if Float32 \<in> set [dtype q, dtype k, dtype v]
                      then Inr (GpuFlashAttention q k' v' None None sc True)
                      else Inr (CudnnDotProductAttention q k' v' None sc True))))"
proof (intro conjI impI allI)
  assume a: "\<not> (shape1 q = 1 \<and> backend = ''gpu'') \<and> int (shape1 q) mod bs \<noteq> 0"
  have x: "jit_attn sc bs backend q k v bias
         = xla_attention sc q k v
             (CompositeAttentionBias
                [if shape1 q = 1 then TensorAttentionBias (bias_value bias) else bias])"
    using assms a by (intro jit_attn_fallback) auto
  show "jit_attn sc bs backend q k v bias
         = xla_attention sc q k v
             (CompositeAttentionBias
                [if shape1 q = 1 then TensorAttentionBias (bias_value bias) else bias])"
    by (rule x)
  have "jit_attn sc bs ''xla'' q k v bias
         = xla_attention sc q k v
             (CompositeAttentionBias
                [if shape1 q = 1 then TensorAttentionBias (bias_value bias) else bias])"
    using assms a by (intro jit_attn_fallback) auto
  with x show "jit_attn sc bs backend q k v bias = jit_attn sc bs ''xla'' q k v bias"
    by simp
  fix c assume "jit_attn sc bs backend q k v bias = Inr c"
  with x show "is_reference_call c"
    by (simp add: xla_attention_reference_or_error)
next
  fix c
  assume b: "int (shape1 q) mod bs = 0 \<and> shape1 q = shape1 k"
    and c: "jit_attn sc bs ''gpu'' q k v CausalAttentionBias = Inr c"
  show "\<not> is_reference_call c"
  proof (cases "shape1 q = 1")
    case True
    with c show ?thesis
      by (simp add: jit_attn_decode gpu_decoding_not_reference)
  next
    case False
    have "jit_attn sc bs ''gpu'' q k v CausalAttentionBias
            = gpu_attention sc q k v (CompositeAttentionBias [CausalAttentionBias])"
      using jit_attn_kept [OF assms conjunct1 [OF b] False, of sc "''gpu''" k v] by simp
    with c show ?thesis
      by (simp add: gpu_attention_not_reference)
  qed
next
  fix k' v'
  assume b: "int (shape1 q) mod bs = 0 \<and> shape1 q = shape1 k"
    and r: "shape1 q \<noteq> 1 \<and> repeat_kv_heads (shape2 q) k = Inr k'
              \<and> repeat_kv_heads (shape2 q) v = Inr v'"
  have "jit_attn sc bs ''gpu'' q k v CausalAttentionBias
          = gpu_attention sc q k v (CompositeAttentionBias [CausalAttentionBias])"
    using jit_attn_kept [OF assms conjunct1 [OF b] conjunct1 [OF r], of sc "''gpu''" k v]
    by simp
  also have "\<dots> = (if Float32 \<in> set [dtype q, dtype k, dtype v]
                      then Inr (GpuFlashAttention q k' v' None None sc True)
                      else Inr (CudnnDotProductAttention q k' v' None sc True))"
    using b r
    by (subst gpu_attention_choice [of q k k' v v'])
       (simp_all add: matched_def residual_def from_sequence_def get_segment_ids_zero)
  finally show "jit_attn sc bs ''gpu'' q k v CausalAttentionBias
          = (if Float32 \<in> set [dtype q, dtype k, dtype v]
                      then Inr (GpuFlashAttention q k' v' None None sc True)
                      else Inr (CudnnDotProductAttention q k' v' None sc True))" .
qed

theorem jit_attn_divisibility_fallback_witness:
  "jit_attn (1::real) 128 ''tpu'' (full 1 100 2 1 BFloat16 (0::real))
      (full 1 100 2 1 BFloat16 0) (full 1 100 2 1 BFloat16 0) CausalAttentionBias
     = jit_attn 1 128 ''xla'' (full 1 100 2 1 BFloat16 0)
         (full 1 100 2 1 BFloat16 0) (full 1 100 2 1 BFloat16 0) CausalAttentionBias
   \<and> jit_attn (1::real) 128 ''tpu'' (full 1 100 2 1 BFloat16 (0::real))
      (full 1 100 2 1 BFloat16 0) (full 1 100 2 1 BFloat16 0) CausalAttentionBias
     = Inr (MhaReference (full 1 100 2 1 BFloat16 0) (full 1 100 2 1 BFloat16 0)
              (full 1 100 2 1 BFloat16 0) None None True 1)
   \<and> jit_attn (1::real) 128 ''gpu'' (full 1 256 2 1 BFloat16 (0::real))
      (full 1 256 2 1 BFloat16 0) (full 1 256 2 1 BFloat16 0) CausalAttentionBias
     = Inr (CudnnDotProductAttention (full 1 256 2 1 BFloat16 0) (full 1 256 2 1 BFloat16 0)
              (full 1 256 2 1 BFloat16 0) None 1 True)"
proof -
  let ?q = "full 1 100 2 1 BFloat16 (0::real)" and ?p = "full 1 256 2 1 BFloat16 (0::real)"
  have bs: "(128::int) \<noteq> 0" by simp
  note t = jit_attn_divisibility_fallback [OF bs]
  have h1: "\<not> (shape1 ?q = 1 \<and> ''tpu'' = ''gpu'') \<and> int (shape1 ?q) mod 128 \<noteq> 0"
    by simp
  from t [of ?q "''tpu''" "1::real" ?q ?q CausalAttentionBias] h1
  have a: "jit_attn (1::real) 128 ''tpu'' ?q ?q ?q CausalAttentionBias
             = jit_attn 1 128 ''xla'' ?q ?q ?q CausalAttentionBias"
    and b: "jit_attn (1::real) 128 ''tpu'' ?q ?q ?q CausalAttentionBias
             = xla_attention 1 ?q ?q ?q
                 (CompositeAttentionBias
                    [if shape1 ?q = 1 then TensorAttentionBias (bias_value CausalAttentionBias)
                     else CausalAttentionBias])"
    by blast+
  have b': "jit_attn (1::real) 128 ''tpu'' ?q ?q ?q CausalAttentionBias
             = Inr (MhaReference ?q ?q ?q None None True 1)"
    unfolding b
    by (simp add: xla_attention_def split2_def matched_def residual_def from_sequence_def
        get_segment_ids_def)
  have h2: "int (shape1 ?p) mod 128 = 0 \<and> shape1 ?p = shape1 ?p" by simp
  have h3: "shape1 ?p \<noteq> 1 \<and> repeat_kv_heads (shape2 ?p) ?p = Inr ?p
              \<and> repeat_kv_heads (shape2 ?p) ?p = Inr ?p" by simp
  from t [of ?p "''gpu''" "1::real" ?p ?p CausalAttentionBias] h2 h3
  have "jit_attn (1::real) 128 ''gpu'' ?p ?p ?p CausalAttentionBias
          = (if Float32 \<in> set [dtype ?p, dtype ?p, dtype ?p]
             then Inr (GpuFlashAttention ?p ?p ?p None None 1 True)
             else Inr (CudnnDotProductAttention ?p ?p ?p None 1 True))"
    by blast
  then have c: "jit_attn (1::real) 128 ''gpu'' ?p ?p ?p CausalAttentionBias
          = Inr (CudnnDotProductAttention ?p ?p ?p None 1 True)"
    by simp
  from a b' c show ?thesis by blast
qed

text \<open>
  C2. A call on \<^verbatim>\<open>"gpu"\<close> with target length 1 raises exactly when the MaskFn component that
  \<^verbatim>\<open>split\<close> retrieves from the bias has no \<open>target_positions\<close> (which includes that there is
  no such component), and then it raises \<^verbatim>\<open>RuntimeError\<close>. Otherwise it calls the decoding
  kernel with the predicate of that component, with \<open>kv_seq_len\<close> equal to
  \<open>target_positions + 1\<close> in \<^verbatim>\<open>int32\<close> arithmetic, and with key and value as they came, heads
  not repeated. For a batch row whose target position \<open>p\<close> is below the largest \<^verbatim>\<open>int32\<close>
  value, the source positions within the \<open>kv_seq_len\<close> of that call are exactly those from
  0 to \<open>p\<close>, so \<open>p + 1\<close> is the first one left out.
\<close>

theorem jit_attn_gpu_decoding:
  assumes "shape1 q = 1"
  shows "(isl (jit_attn sc bs ''gpu'' q k v bias)
            \<longleftrightarrow> target_positions (matched bias MaskFnCls) = None)
       \<and> (target_positions (matched bias MaskFnCls) = None
            \<longrightarrow> jit_attn sc bs ''gpu'' q k v bias = Inl RuntimeError)
       \<and> (\<forall>fn tp. matched bias MaskFnCls = MaskFnAttentionBias fn (Some tp)
            \<longrightarrow> jit_attn sc bs ''gpu'' q k v bias
                  = Inr (FlashDecoding q k v (bias_value (residual bias [MaskFnCls])) fn
                           (map (\<lambda>p. p + 1) tp) sc)
                \<and> (\<forall>b < length tp. sint (tp ! b) < 2147483647 \<longrightarrow>
                      (\<forall>s. in_kv_seq_len
                              (call_kv_seq_len (projr (jit_attn sc bs ''gpu'' q k v bias)) ! b) s
                            \<longleftrightarrow> 0 \<le> s \<and> s \<le> sint (tp ! b))))"
proof -
  have e: "jit_attn sc bs ''gpu'' q k v bias
             = (case matched bias MaskFnCls of
                  MaskFnAttentionBias fn (Some tp) \<Rightarrow>
                    Inr (FlashDecoding q k v (bias_value (residual bias [MaskFnCls])) fn
                           (map (\<lambda>p. p + 1) tp) sc)
                | _ \<Rightarrow> Inl RuntimeError)"
    using assms by (simp add: jit_attn_decode gpu_decoding_result)
  have a: "isl (jit_attn sc bs ''gpu'' q k v bias)
            \<longleftrightarrow> target_positions (matched bias MaskFnCls) = None"
    unfolding e by (cases "matched bias MaskFnCls") (auto split: option.splits)
  have b: "target_positions (matched bias MaskFnCls) = None
            \<longrightarrow> jit_attn sc bs ''gpu'' q k v bias = Inl RuntimeError"
    unfolding e by (cases "matched bias MaskFnCls") (auto split: option.splits)
  have c: "jit_attn sc bs ''gpu'' q k v bias
                  = Inr (FlashDecoding q k v (bias_value (residual bias [MaskFnCls])) fn
                           (map (\<lambda>p. p + 1) tp) sc)
                \<and> (\<forall>b < length tp. sint (tp ! b) < 2147483647 \<longrightarrow>
                      (\<forall>s. in_kv_seq_len
                              (call_kv_seq_len (projr (jit_attn sc bs ''gpu'' q k v bias)) ! b) s
                            \<longleftrightarrow> 0 \<le> s \<and> s \<le> sint (tp ! b)))"
    if m: "matched bias MaskFnCls = MaskFnAttentionBias fn (Some tp)" for fn tp
  proof -
    have r: "jit_attn sc bs ''gpu'' q k v bias
                  = Inr (FlashDecoding q k v (bias_value (residual bias [MaskFnCls])) fn
                           (map (\<lambda>p. p + 1) tp) sc)"
      unfolding e by (simp add: m)
    show ?thesis
      unfolding r by (simp add: in_kv_seq_len_succ)
  qed
  from a b c show ?thesis by blast
qed

theorem jit_attn_gpu_decoding_witness:
  "jit_attn (1::real) 128 ''gpu'' (full 1 1 4 1 BFloat16 (0::real))
     (full 1 8 2 1 BFloat16 0) (full 1 8 2 1 BFloat16 0)
     (MaskFnAttentionBias causal_fn (Some [5]))
     = Inr (FlashDecoding (full 1 1 4 1 BFloat16 0) (full 1 8 2 1 BFloat16 0)
              (full 1 8 2 1 BFloat16 0) None causal_fn [6] 1)
   \<and> filter (in_kv_seq_len (call_kv_seq_len (projr
         (jit_attn (1::real) 128 ''gpu'' (full 1 1 4 1 BFloat16 (0::real))
            (full 1 8 2 1 BFloat16 0) (full 1 8 2 1 BFloat16 0)
            (MaskFnAttentionBias causal_fn (Some [5])))) ! 0))
        [0, 1, 2, 3, 4, 5, 6, 7] = [0, 1, 2, 3, 4, 5]
   \<and> jit_attn (1::real) 128 ''gpu'' (full 1 1 4 1 BFloat16 (0::real))
        (full 1 8 2 1 BFloat16 0) (full 1 8 2 1 BFloat16 0)
        (MaskFnAttentionBias causal_fn (Some [2147483647]))
       = Inr (FlashDecoding (full 1 1 4 1 BFloat16 0) (full 1 8 2 1 BFloat16 0)
              (full 1 8 2 1 BFloat16 0) None causal_fn [- 2147483648] 1)
   \<and> jit_attn (1::real) 128 ''gpu'' (full 1 1 4 1 BFloat16 (0::real))
        (full 1 8 2 1 BFloat16 0) (full 1 8 2 1 BFloat16 0)
        (MaskFnAttentionBias causal_fn None) = Inl RuntimeError
   \<and> isl (jit_attn (1::real) 128 ''gpu'' (full 1 1 4 1 BFloat16 (0::real))
        (full 1 8 2 1 BFloat16 0) (full 1 8 2 1 BFloat16 0) CausalAttentionBias)"
proof -
  let ?q = "full 1 1 4 1 BFloat16 (0::real)" and ?k = "full 1 8 2 1 BFloat16 (0::real)"
  have q: "shape1 ?q = 1" by simp
  note t = jit_attn_gpu_decoding [OF q, of "1::real" 128 ?k ?k]
  have m1: "matched (MaskFnAttentionBias causal_fn (Some [5]) :: real bias) MaskFnCls
              = MaskFnAttentionBias causal_fn (Some [5])"
    and m4: "matched (MaskFnAttentionBias causal_fn (Some [2147483647]) :: real bias) MaskFnCls
              = MaskFnAttentionBias causal_fn (Some [2147483647])"
    and m2: "target_positions (matched (MaskFnAttentionBias causal_fn None :: real bias) MaskFnCls)
              = None"
    and m3: "target_positions (matched (CausalAttentionBias :: real bias) MaskFnCls) = None"
    and r1: "bias_value (residual (MaskFnAttentionBias causal_fn (Some tp) :: real bias)
                          [MaskFnCls]) = None" for tp
    by (simp_all add: matched_def from_sequence_def residual_def)
  from t [of "MaskFnAttentionBias causal_fn (Some [5])"] m1
  have a0: "jit_attn (1::real) 128 ''gpu'' ?q ?k ?k (MaskFnAttentionBias causal_fn (Some [5]))
             = Inr (FlashDecoding ?q ?k ?k
                      (bias_value (residual (MaskFnAttentionBias causal_fn (Some [5])) [MaskFnCls]))
                      causal_fn (map (\<lambda>p. p + 1) [5]) 1)"
    and v0: "\<forall>b < length [5 :: int32]. sint ([5 :: int32] ! b) < 2147483647 \<longrightarrow>
               (\<forall>s. in_kv_seq_len
                       (call_kv_seq_len (projr (jit_attn (1::real) 128 ''gpu'' ?q ?k ?k
                          (MaskFnAttentionBias causal_fn (Some [5])))) ! b) s
                     \<longleftrightarrow> 0 \<le> s \<and> s \<le> sint ([5 :: int32] ! b))"
    by blast+
  have a: "jit_attn (1::real) 128 ''gpu'' ?q ?k ?k (MaskFnAttentionBias causal_fn (Some [5]))
             = Inr (FlashDecoding ?q ?k ?k None causal_fn [6] 1)"
    unfolding a0 r1 by simp
  from v0 have v: "in_kv_seq_len
                       (call_kv_seq_len (projr (jit_attn (1::real) 128 ''gpu'' ?q ?k ?k
                          (MaskFnAttentionBias causal_fn (Some [5])))) ! 0) s
                     \<longleftrightarrow> 0 \<le> s \<and> s \<le> 5" for s
    by simp
  have d: "filter (in_kv_seq_len (call_kv_seq_len (projr
              (jit_attn (1::real) 128 ''gpu'' ?q ?k ?k
                 (MaskFnAttentionBias causal_fn (Some [5])))) ! 0))
             [0, 1, 2, 3, 4, 5, 6, 7] = [0, 1, 2, 3, 4, 5]"
    by (rule filter_upto_5) (rule v)
  from t [of "MaskFnAttentionBias causal_fn (Some [2147483647])"] m4
  have o0: "jit_attn (1::real) 128 ''gpu'' ?q ?k ?k
              (MaskFnAttentionBias causal_fn (Some [2147483647]))
             = Inr (FlashDecoding ?q ?k ?k
                      (bias_value (residual (MaskFnAttentionBias causal_fn (Some [2147483647]))
                                     [MaskFnCls]))
                      causal_fn (map (\<lambda>p. p + 1) [2147483647]) 1)"
    by blast
  have o: "jit_attn (1::real) 128 ''gpu'' ?q ?k ?k
              (MaskFnAttentionBias causal_fn (Some [2147483647]))
             = Inr (FlashDecoding ?q ?k ?k None causal_fn [- 2147483648] 1)"
    unfolding o0 r1 by simp
  from t [of "MaskFnAttentionBias causal_fn None"] m2
  have b: "jit_attn (1::real) 128 ''gpu'' ?q ?k ?k (MaskFnAttentionBias causal_fn None)
             = Inl RuntimeError"
    by blast
  from t [of CausalAttentionBias] m3
  have c: "isl (jit_attn (1::real) 128 ''gpu'' ?q ?k ?k CausalAttentionBias)"
    by blast
  from a d o b c show ?thesis by blast
qed

text \<open>
  C3. For a block size other than 0, a call with target length 1 on any backend but
  \<^verbatim>\<open>"gpu"\<close> ends in the reference branch, with the whole bias collapsed to the one dense
  tensor \<^verbatim>\<open>bias.value()\<close>: the reference attention is called with that tensor as its bias,
  without segment ids and without the causal flag, and it has no argument for a mask
  predicate. The only exception on the way is that of head repetition.
\<close>

theorem jit_attn_single_token_non_gpu:
  assumes "shape1 q = 1" and "backend \<noteq> ''gpu''" and "bs \<noteq> 0"
  shows "jit_attn sc bs backend q k v bias
           = (case repeat_kv_heads (shape2 q) k of
                Inl e \<Rightarrow> Inl e
              | Inr k' \<Rightarrow>
                  (case repeat_kv_heads (shape2 q) v of
                     Inl e \<Rightarrow> Inl e
                   | Inr v' \<Rightarrow> Inr (MhaReference q k' v' (bias_value bias) None False sc)))"
proof -
  have "jit_attn sc bs backend q k v bias
          = xla_attention sc q k v
              (CompositeAttentionBias [TensorAttentionBias (bias_value bias)])"
    using assms jit_attn_fallback [of bs q backend sc k v bias] by simp
  also have "\<dots> = (case repeat_kv_heads (shape2 q) k of
                Inl e \<Rightarrow> Inl e
              | Inr k' \<Rightarrow>
                  (case repeat_kv_heads (shape2 q) v of
                     Inl e \<Rightarrow> Inl e
                   | Inr v' \<Rightarrow> Inr (MhaReference q k' v' (bias_value bias) None False sc)))"
    by (simp add: xla_attention_def split2_def matched_def residual_def from_sequence_def
        get_segment_ids_zero dense_sum_option split: sum.splits)
  finally show ?thesis .
qed

theorem jit_attn_single_token_non_gpu_witness:
  "jit_attn (1::real) 128 ''tpu'' (full 1 1 2 1 BFloat16 (0::real))
     (full 1 8 2 1 BFloat16 0) (full 1 8 2 1 BFloat16 0)
     (CompositeAttentionBias [MaskFnAttentionBias causal_fn (Some [5]),
                              SegmentIdAttentionBias [[0]]])
     = Inr (MhaReference (full 1 1 2 1 BFloat16 0) (full 1 8 2 1 BFloat16 0)
              (full 1 8 2 1 BFloat16 0)
              (Some (DenseSum [OfMaskFn causal_fn (Some [5]), OfSegmentIds [[0]]]))
              None False 1)"
  using jit_attn_single_token_non_gpu [of "full 1 1 2 1 BFloat16 (0::real)" "''tpu''" 128
      "1::real" "full 1 8 2 1 BFloat16 0" "full 1 8 2 1 BFloat16 0"
      "CompositeAttentionBias [MaskFnAttentionBias causal_fn (Some [5]),
                               SegmentIdAttentionBias [[0]]]"]
  by simp

text \<open>
  C4, as amended. A call on \<^verbatim>\<open>"gpu"\<close> whose target length is a multiple of the block size
  (itself not 0) and is not 1, with equal query and key lengths and key and value tensors
  of at least one head: head repetition succeeds, and the general GPU kernel is chosen
  exactly when the SegmentId component that \<^verbatim>\<open>split\<close> retrieves has a value, or the
  remaining bias has one, or one of query, key and value is \<open>float32\<close>; it is then called
  with the remaining bias and the segment ids that \<^verbatim>\<open>get_segment_ids\<close> returns, unless that
  raises. Otherwise the fastest kernel is called with the causal flag only: its bias is
  \<^verbatim>\<open>None\<close> and it has no segment ids.
\<close>

theorem jit_attn_gpu_kernel_choice:
  assumes "bs \<noteq> 0" and "int (shape1 q) mod bs = 0" and "shape1 q \<noteq> 1"
    and "shape1 q = shape1 k" and "shape2 k \<noteq> 0" and "shape2 v \<noteq> 0"
  shows "\<exists>k' v'. repeat_kv_heads (shape2 q) k = Inr k'
           \<and> repeat_kv_heads (shape2 q) v = Inr v'
           \<and> jit_attn sc bs ''gpu'' q k v bias
               = (if bias_value (matched bias SegmentIdCls) \<noteq> None
                     \<or> bias_value (residual bias [CausalCls, SegmentIdCls]) \<noteq> None
                     \<or> Float32 \<in> set [dtype q, dtype k, dtype v]
                  then (case get_segment_ids q k' (Some (matched bias SegmentIdCls)) of
                          Inl e \<Rightarrow> Inl e
                        | Inr ids \<Rightarrow>
                            Inr (GpuFlashAttention q k' v'
                                   (bias_value (residual bias [CausalCls, SegmentIdCls])) ids sc
                                   (bias_value (matched bias CausalCls) \<noteq> None)))
                  else Inr (CudnnDotProductAttention q k' v' None sc
                              (bias_value (matched bias CausalCls) \<noteq> None)))"
proof -
  from repeat_kv_heads_Inr_ex [OF assms(5), of "shape2 q"] obtain k'
    where k': "repeat_kv_heads (shape2 q) k = Inr k'" by blast
  from repeat_kv_heads_Inr_ex [OF assms(6), of "shape2 q"] obtain v'
    where v': "repeat_kv_heads (shape2 q) v = Inr v'" by blast
  have "jit_attn sc bs ''gpu'' q k v bias
          = gpu_attention sc q k v (CompositeAttentionBias [bias])"
    using assms(1-3) by (simp add: jit_attn_kept)
  then have "jit_attn sc bs ''gpu'' q k v bias
               = (if bias_value (matched bias SegmentIdCls) \<noteq> None
                     \<or> bias_value (residual bias [CausalCls, SegmentIdCls]) \<noteq> None
                     \<or> Float32 \<in> set [dtype q, dtype k, dtype v]
                  then (case get_segment_ids q k' (Some (matched bias SegmentIdCls)) of
                          Inl e \<Rightarrow> Inl e
                        | Inr ids \<Rightarrow>
                            Inr (GpuFlashAttention q k' v'
                                   (bias_value (residual bias [CausalCls, SegmentIdCls])) ids sc
                                   (bias_value (matched bias CausalCls) \<noteq> None)))
                  else Inr (CudnnDotProductAttention q k' v' None sc
                              (bias_value (matched bias CausalCls) \<noteq> None)))"
    by (simp only: gpu_attention_choice [OF assms(4) k' v'])
  with k' v' show ?thesis by blast
qed

theorem jit_attn_gpu_kernel_choice_witness:
  "jit_attn (1::real) 128 ''gpu'' (full 1 256 2 1 BFloat16 (0::real))
      (full 1 256 2 1 BFloat16 0) (full 1 256 2 1 BFloat16 0) CausalAttentionBias
     = Inr (CudnnDotProductAttention (full 1 256 2 1 BFloat16 0) (full 1 256 2 1 BFloat16 0)
              (full 1 256 2 1 BFloat16 0) None 1 True)
   \<and> jit_attn (1::real) 128 ''gpu'' (full 1 256 2 1 BFloat16 (0::real))
      (full 1 256 2 1 BFloat16 0) (full 1 256 2 1 BFloat16 0)
      (CompositeAttentionBias [CausalAttentionBias, SegmentIdAttentionBias [replicate 256 0]])
     = Inr (GpuFlashAttention (full 1 256 2 1 BFloat16 0) (full 1 256 2 1 BFloat16 0)
              (full 1 256 2 1 BFloat16 0) None (Some [replicate 256 0]) 1 True)
   \<and> jit_attn (1::real) 128 ''gpu'' (full 1 256 2 1 Float32 (0::real))
      (full 1 256 2 1 BFloat16 0) (full 1 256 2 1 BFloat16 0) ZeroAttentionBias
     = Inr (GpuFlashAttention (full 1 256 2 1 Float32 0) (full 1 256 2 1 BFloat16 0)
              (full 1 256 2 1 BFloat16 0) None None 1 False)"
proof -
  let ?p = "full 1 256 2 1 BFloat16 (0::real)" and ?f = "full 1 256 2 1 Float32 (0::real)"
  have bs: "(128::int) \<noteq> 0" by simp
  have p: "int (shape1 ?p) mod 128 = 0" "shape1 ?p \<noteq> 1" "shape1 ?p = shape1 ?p"
    "shape2 ?p \<noteq> 0" by simp_all
  have f: "int (shape1 ?f) mod 128 = 0" "shape1 ?f \<noteq> 1" "shape1 ?f = shape1 ?p" by simp_all
  have rp: "repeat_kv_heads (shape2 ?p) ?p = Inr k' \<longleftrightarrow> k' = ?p"
    and rf: "repeat_kv_heads (shape2 ?f) ?p = Inr k' \<longleftrightarrow> k' = ?p" for k'
    by auto
  note tp = jit_attn_gpu_kernel_choice [OF bs p(1,2,3,4,4), of "1::real", unfolded rp]
  note tf = jit_attn_gpu_kernel_choice [OF bs f(1,2,3) p(4,4), of "1::real", unfolded rf]
  have a: "jit_attn (1::real) 128 ''gpu'' ?p ?p ?p CausalAttentionBias
     = Inr (CudnnDotProductAttention ?p ?p ?p None 1 True)"
    using tp [of CausalAttentionBias]
    by (simp add: matched_def residual_def from_sequence_def)
  have b: "jit_attn (1::real) 128 ''gpu'' ?p ?p ?p
      (CompositeAttentionBias [CausalAttentionBias, SegmentIdAttentionBias [replicate 256 0]])
     = Inr (GpuFlashAttention ?p ?p ?p None (Some [replicate 256 0]) 1 True)"
    using tp [of "CompositeAttentionBias
                    [CausalAttentionBias, SegmentIdAttentionBias [replicate 256 0]]"]
    by (simp add: matched_def residual_def from_sequence_def get_segment_ids_def)
  have c: "jit_attn (1::real) 128 ''gpu'' ?f ?p ?p ZeroAttentionBias
     = Inr (GpuFlashAttention ?f ?p ?p None None 1 False)"
    using tf [of ZeroAttentionBias]
    by (simp add: matched_def residual_def from_sequence_def get_segment_ids_def)
  from a b c show ?thesis by blast
qed

text \<open>
  C4 as stated fails for a target length that is not a multiple of the block size: a
  query of length 100 on \<^verbatim>\<open>"gpu"\<close> with block size 128, equal lengths and a SegmentId
  component ends in the reference attention, not in the general GPU kernel.
\<close>

theorem jit_attn_gpu_kernel_choice_counterexample:
  "bias_value (matched (SegmentIdAttentionBias [replicate 100 0] :: real bias) SegmentIdCls)
     \<noteq> None
   \<and> jit_attn (1::real) 128 ''gpu'' (full 1 100 2 1 BFloat16 (0::real))
        (full 1 100 2 1 BFloat16 0) (full 1 100 2 1 BFloat16 0)
        (SegmentIdAttentionBias [replicate 100 0])
       = Inr (MhaReference (full 1 100 2 1 BFloat16 0) (full 1 100 2 1 BFloat16 0)
                (full 1 100 2 1 BFloat16 0) None (Some [replicate 100 0]) False 1)"
  by (simp add: jit_attn_def xla_attention_def split2_def matched_def residual_def
      from_sequence_def get_segment_ids_def)

text \<open>
  C6, as amended. A backend outside \<^verbatim>\<open>"cpu"\<close>, \<^verbatim>\<open>"gpu"\<close>, \<^verbatim>\<open>"tpu"\<close>, \<^verbatim>\<open>"xla"\<close> raises
  \<^verbatim>\<open>NotImplementedError\<close> when the target length is a multiple of the block size (itself
  not 0) and is not 1. For the other target lengths the two fallbacks have replaced the
  backend by \<^verbatim>\<open>"xla"\<close> before the backend is looked at.
\<close>

theorem jit_attn_unsupported_backend:
  assumes "backend \<notin> set [''cpu'', ''gpu'', ''tpu'', ''xla'']"
    and "bs \<noteq> 0" and "int (shape1 q) mod bs = 0" and "shape1 q \<noteq> 1"
  shows "jit_attn sc bs backend q k v bias = Inl NotImplementedError"
  using assms by (simp add: jit_attn_kept)

theorem jit_attn_unsupported_backend_witness:
  "jit_attn (1::real) 128 ''rocm'' (full 1 128 2 1 BFloat16 (0::real))
     (full 1 128 2 1 BFloat16 0) (full 1 128 2 1 BFloat16 0) CausalAttentionBias
     = Inl NotImplementedError"
  using jit_attn_unsupported_backend [of "''rocm''" 128 "full 1 128 2 1 BFloat16 (0::real)"]
  by simp

text \<open>
  C6 as stated fails: with a target length of 100 and a block size of 128 the backend
  \<^verbatim>\<open>"rocm"\<close> is replaced by \<^verbatim>\<open>"xla"\<close> and the reference attention is called.
\<close>

theorem jit_attn_unsupported_backend_counterexample:
  "''rocm'' \<notin> set [''cpu'', ''gpu'', ''tpu'', ''xla'']
   \<and> jit_attn (1::real) 128 ''rocm'' (full 1 100 2 1 BFloat16 (0::real))
        (full 1 100 2 1 BFloat16 0) (full 1 100 2 1 BFloat16 0) CausalAttentionBias
       = Inr (MhaReference (full 1 100 2 1 BFloat16 0) (full 1 100 2 1 BFloat16 0)
                (full 1 100 2 1 BFloat16 0) None None True 1)
   \<and> jit_attn (1::real) 128 ''rocm'' (full 1 100 2 1 BFloat16 (0::real))
        (full 1 100 2 1 BFloat16 0) (full 1 100 2 1 BFloat16 0) CausalAttentionBias
       \<noteq> Inl NotImplementedError"
  by (simp add: jit_attn_def xla_attention_def split2_def matched_def residual_def
      from_sequence_def get_segment_ids_def)

text \<open>
  C10, as amended. A call with a target length other than 1, a block size other than 0
  and key and value tensors with at least one head, for which \<^verbatim>\<open>split\<close> retrieves a SegmentId
  component. Where it ends in the TPU or the reference branch, it raises \<^verbatim>\<open>ValueError\<close>,
  calling no kernel, when query and key lengths differ or the leading dimension of the
  segment ids is not the batch size of the query, and otherwise it calls the kernel with
  the segment ids as they are. Where it ends in the GPU branch, differing lengths raise
  \<^verbatim>\<open>NotImplementedError\<close> (the test of lines 194-200 comes first), a differing batch size
  raises \<^verbatim>\<open>ValueError\<close>, and otherwise the segment ids are passed on as they are.
\<close>

theorem jit_attn_segment_ids_checks:
  assumes bs: "bs \<noteq> 0" and len: "shape1 q \<noteq> 1"
    and m: "matched bias SegmentIdCls = SegmentIdAttentionBias ids"
    and k: "shape2 k \<noteq> 0" and v: "shape2 v \<noteq> 0"
  shows "(backend \<in> set [''tpu'', ''cpu'', ''xla''] \<or> int (shape1 q) mod bs \<noteq> 0 \<longrightarrow>
            (if shape1 q \<noteq> shape1 k \<or> length ids \<noteq> shape0 q
             then jit_attn sc bs backend q k v bias = Inl ValueError
             else \<exists>c. jit_attn sc bs backend q k v bias = Inr c
                    \<and> call_segment_ids c = Some ids))
       \<and> (backend = ''gpu'' \<and> int (shape1 q) mod bs = 0 \<longrightarrow>
            (if shape1 q \<noteq> shape1 k
             then jit_attn sc bs backend q k v bias = Inl NotImplementedError
             else if length ids \<noteq> shape0 q
             then jit_attn sc bs backend q k v bias = Inl ValueError
             else \<exists>c. jit_attn sc bs backend q k v bias = Inr c
                    \<and> call_segment_ids c = Some ids))"
proof (intro conjI impI)
  assume a: "backend \<in> set [''tpu'', ''cpu'', ''xla''] \<or> int (shape1 q) mod bs \<noteq> 0"
  show "if shape1 q \<noteq> shape1 k \<or> length ids \<noteq> shape0 q
        then jit_attn sc bs backend q k v bias = Inl ValueError
        else \<exists>c. jit_attn sc bs backend q k v bias = Inr c \<and> call_segment_ids c = Some ids"
  proof (cases "int (shape1 q) mod bs = 0")
    case False
    have "jit_attn sc bs backend q k v bias
            = xla_attention sc q k v (CompositeAttentionBias [bias])"
      using jit_attn_fallback [of bs q backend sc k v bias] bs len False by simp
    then show ?thesis
      using xla_attention_segment [OF m k v, of q sc] by simp
  next
    case True
    with a have b: "backend \<in> set [''tpu'', ''cpu'', ''xla'']" by simp
    have e: "jit_attn sc bs backend q k v bias
              = (if backend = ''tpu'' then tpu_attention sc bs q k v (CompositeAttentionBias [bias])
                 else xla_attention sc q k v (CompositeAttentionBias [bias]))"
      using jit_attn_kept [OF bs True len, of sc backend k v bias] b by auto
    show ?thesis
      using xla_attention_segment [OF m k v, of q sc] tpu_attention_segment [OF m k v, of q sc bs]
      unfolding e by (cases "backend = ''tpu''") simp_all
  qed
next
  assume a: "backend = ''gpu'' \<and> int (shape1 q) mod bs = 0"
  have e: "jit_attn sc bs backend q k v bias
             = gpu_attention sc q k v (CompositeAttentionBias [bias])"
    using jit_attn_kept [OF bs conjunct2 [OF a] len, of sc backend k v bias] a by simp
  show "if shape1 q \<noteq> shape1 k
        then jit_attn sc bs backend q k v bias = Inl NotImplementedError
        else if length ids \<noteq> shape0 q
        then jit_attn sc bs backend q k v bias = Inl ValueError
        else \<exists>c. jit_attn sc bs backend q k v bias = Inr c \<and> call_segment_ids c = Some ids"
    unfolding e by (rule gpu_attention_segment [OF m k v])
qed

theorem jit_attn_segment_ids_checks_witness:
  "jit_attn (1::real) 128 ''tpu'' (full 1 256 2 1 BFloat16 (0::real))
      (full 1 512 2 1 BFloat16 0) (full 1 512 2 1 BFloat16 0)
      (SegmentIdAttentionBias [replicate 256 0]) = Inl ValueError
   \<and> jit_attn (1::real) 128 ''cpu'' (full 2 256 2 1 BFloat16 (0::real))
      (full 2 256 2 1 BFloat16 0) (full 2 256 2 1 BFloat16 0)
      (SegmentIdAttentionBias [replicate 256 0]) = Inl ValueError
   \<and> jit_attn (1::real) 128 ''gpu'' (full 2 256 2 1 BFloat16 (0::real))
      (full 2 256 2 1 BFloat16 0) (full 2 256 2 1 BFloat16 0)
      (SegmentIdAttentionBias [replicate 256 0]) = Inl ValueError
   \<and> jit_attn (1::real) 128 ''gpu'' (full 1 256 2 1 BFloat16 (0::real))
      (full 1 512 2 1 BFloat16 0) (full 1 512 2 1 BFloat16 0)
      (SegmentIdAttentionBias [replicate 256 0]) = Inl NotImplementedError
   \<and> call_segment_ids (projr (jit_attn (1::real) 128 ''tpu'' (full 1 256 2 1 BFloat16 (0::real))
      (full 1 256 2 1 BFloat16 0) (full 1 256 2 1 BFloat16 0)
      (SegmentIdAttentionBias [replicate 256 0]))) = Some [replicate 256 0]"
proof -
  let ?q1 = "full 1 256 2 1 BFloat16 (0::real)" and ?q2 = "full 2 256 2 1 BFloat16 (0::real)"
  let ?k1 = "full 1 512 2 1 BFloat16 (0::real)"
  let ?b = "SegmentIdAttentionBias [replicate 256 0] :: real bias"
  have bs: "(128::int) \<noteq> 0" by simp
  have m: "matched ?b SegmentIdCls = SegmentIdAttentionBias [replicate 256 0]"
    by (simp add: matched_def from_sequence_def)
  have l: "shape1 ?q1 \<noteq> 1" "shape1 ?q2 \<noteq> 1" "shape2 ?q1 \<noteq> 0" "shape2 ?q2 \<noteq> 0"
    "shape2 ?k1 \<noteq> 0" by simp_all
  have a: "jit_attn (1::real) 128 ''tpu'' ?q1 ?k1 ?k1 ?b = Inl ValueError"
    using jit_attn_segment_ids_checks [OF bs l(1) m l(5) l(5), of "''tpu''" "1::real"]
    by simp
  have b: "jit_attn (1::real) 128 ''cpu'' ?q2 ?q2 ?q2 ?b = Inl ValueError"
    using jit_attn_segment_ids_checks [OF bs l(2) m l(4) l(4), of "''cpu''" "1::real"]
    by simp
  have c: "jit_attn (1::real) 128 ''gpu'' ?q2 ?q2 ?q2 ?b = Inl ValueError"
    using jit_attn_segment_ids_checks [OF bs l(2) m l(4) l(4), of "''gpu''" "1::real"]
    by simp
  have d: "jit_attn (1::real) 128 ''gpu'' ?q1 ?k1 ?k1 ?b = Inl NotImplementedError"
    using jit_attn_segment_ids_checks [OF bs l(1) m l(5) l(5), of "''gpu''" "1::real"]
    by simp
  have e: "call_segment_ids (projr (jit_attn (1::real) 128 ''tpu'' ?q1 ?q1 ?q1 ?b))
             = Some [replicate 256 0]"
    using jit_attn_segment_ids_checks [OF bs l(1) m l(3) l(3), of "''tpu''" "1::real"]
    by auto
  from a b c d e show ?thesis by blast
qed

text \<open>
  C10 as stated fails on the GPU branch: a query of length 256 and a key of length 512
  raise \<^verbatim>\<open>NotImplementedError\<close>, not \<^verbatim>\<open>ValueError\<close>.
\<close>

theorem jit_attn_segment_ids_gpu_counterexample:
  "jit_attn (1::real) 128 ''gpu'' (full 1 256 2 1 BFloat16 (0::real))
      (full 1 512 2 1 BFloat16 0) (full 1 512 2 1 BFloat16 0)
      (SegmentIdAttentionBias [replicate 256 0]) = Inl NotImplementedError
   \<and> jit_attn (1::real) 128 ''gpu'' (full 1 256 2 1 BFloat16 (0::real))
      (full 1 512 2 1 BFloat16 0) (full 1 512 2 1 BFloat16 0)
      (SegmentIdAttentionBias [replicate 256 0]) \<noteq> Inl ValueError"
  by (simp add: jit_attn_def gpu_attention_def)

section \<open>Claims about the reference attention\<close>

text \<open>
  C7. For logits of shape \<^verbatim>\<open>[batch, heads, target, source]\<close> and segment ids, when supplied,
  of shape \<^verbatim>\<open>[batch, seq_len]\<close> covering the positions: after the masking of
  \<^verbatim>\<open>mha_reference\<close> the entry at \<open>(b, n, t, s)\<close> is \<open>NEG_INF\<close> if segment ids are supplied and
  differ at \<open>t\<close> and \<open>s\<close>, or if \<open>causal\<close> is set and \<open>t < s\<close>; otherwise it is the logit
  itself. The causal mask leaves \<open>(0, 0)\<close> and \<open>(3, 3)\<close> visible and excludes \<open>(0, 1)\<close> and
  \<open>(1, 3)\<close>.
\<close>

theorem mha_reference_logits_excluded:
  assumes "b < length logits" and "n < length (logits ! b)"
    and "t < length (logits ! b ! n)" and "s < length (logits ! b ! n ! t)"
    and "case segment_ids of
           None \<Rightarrow> True
         | Some ids \<Rightarrow> b < length ids \<and> t < length (ids ! b) \<and> s < length (ids ! b)"
  shows "mha_reference_logits neg_inf logits segment_ids causal ! b ! n ! t ! s
           = (if (case segment_ids of None \<Rightarrow> False | Some ids \<Rightarrow> ids ! b ! t \<noteq> ids ! b ! s)
                 \<or> (causal \<and> t < s)
              then neg_inf else logits ! b ! n ! t ! s)
         \<and> \<not> causal_mask b n 0 0 \<and> causal_mask b n 0 1
         \<and> \<not> causal_mask b n 3 3 \<and> causal_mask b n 1 3"
proof -
  have c: "\<not> causal_mask b n 0 0 \<and> causal_mask b n 0 1
         \<and> \<not> causal_mask b n 3 3 \<and> causal_mask b n 1 3"
    by (simp add: causal_mask_def row_ids_def col_ids_def)
  have cm: "causal_mask b n t s \<longleftrightarrow> t < s"
    by (simp add: causal_mask_def row_ids_def col_ids_def)
  have e: "mha_reference_logits neg_inf logits segment_ids causal ! b ! n ! t ! s
           = (if (case segment_ids of None \<Rightarrow> False | Some ids \<Rightarrow> ids ! b ! t \<noteq> ids ! b ! s)
                 \<or> (causal \<and> t < s)
              then neg_inf else logits ! b ! n ! t ! s)"
  proof (cases segment_ids)
    case None
    then show ?thesis
      using assms(1-4) by (simp add: mha_reference_logits_def jnp_where_nth cm)
  next
    case (Some ids)
    then show ?thesis
      using assms(1-4)
      by (auto simp add: mha_reference_logits_def Let_def jnp_where_nth jnp_where_shape cm
          segment_mask_def)
  qed
  from e c show ?thesis by blast
qed

theorem mha_reference_logits_excluded_witness:
  "mha_reference_logits (-1000) logits_example None True ! 0 ! 0 ! 0 ! 0 = 1
   \<and> mha_reference_logits (-1000) logits_example None True ! 0 ! 0 ! 0 ! 1 = -1000
   \<and> mha_reference_logits (-1000) logits_example None True ! 0 ! 0 ! 3 ! 3 = 16
   \<and> mha_reference_logits (-1000) logits_example None True ! 0 ! 0 ! 1 ! 3 = -1000
   \<and> mha_reference_logits (-1000) logits_example (Some [[0, 0, 1, 1]]) False ! 0 ! 0 ! 0 ! 1 = 2
   \<and> mha_reference_logits (-1000) logits_example (Some [[0, 0, 1, 1]]) False ! 0 ! 0 ! 1 ! 2
       = -1000
   \<and> mha_reference_logits (-1000) logits_example (Some [[0, 0, 1, 1]]) True ! 0 ! 0 ! 3 ! 2
       = 15"
proof -
  have sh: "0 < length logits_example" "0 < length (logits_example ! 0)"
    "0 < length (logits_example ! 0 ! 0)" "1 < length (logits_example ! 0 ! 0)"
    "3 < length (logits_example ! 0 ! 0)"
    "0 < length (logits_example ! 0 ! 0 ! 0)" "1 < length (logits_example ! 0 ! 0 ! 0)"
    "3 < length (logits_example ! 0 ! 0 ! 3)" "3 < length (logits_example ! 0 ! 0 ! 1)"
    "2 < length (logits_example ! 0 ! 0 ! 1)" "2 < length (logits_example ! 0 ! 0 ! 3)"
    by (simp_all add: logits_example_def)
  have n: "case None :: int list list option of
             None \<Rightarrow> True
           | Some ids \<Rightarrow> 0 < length ids \<and> t < length (ids ! 0) \<and> s < length (ids ! 0)"
    for t s :: nat by simp
  have g: "case Some [[0, 0, 1, 1 :: int]] of
             None \<Rightarrow> True
           | Some ids \<Rightarrow> 0 < length ids \<and> t < length (ids ! 0) \<and> s < length (ids ! 0)"
    if "t < 4" "s < 4" for t s :: nat using that by simp
  note t = mha_reference_logits_excluded [where neg_inf = "-1000 :: real"]
  have a: "mha_reference_logits (-1000) logits_example None True ! 0 ! 0 ! 0 ! 0 = 1"
    using t [OF sh(1) sh(2) sh(3) sh(6) n, of True] by (simp add: logits_example_def)
  have b: "mha_reference_logits (-1000) logits_example None True ! 0 ! 0 ! 0 ! 1 = -1000"
    using t [OF sh(1) sh(2) sh(3) sh(7) n, of True] by simp
  have c: "mha_reference_logits (-1000) logits_example None True ! 0 ! 0 ! 3 ! 3 = 16"
    using t [OF sh(1) sh(2) sh(5) sh(8) n, of True] by (simp add: logits_example_def)
  have d: "mha_reference_logits (-1000) logits_example None True ! 0 ! 0 ! 1 ! 3 = -1000"
    using t [OF sh(1) sh(2) sh(4) sh(9) n, of True] by simp
  have e: "mha_reference_logits (-1000) logits_example (Some [[0, 0, 1, 1]]) False
             ! 0 ! 0 ! 0 ! 1 = 2"
    using t [OF sh(1) sh(2) sh(3) sh(7) g, of False] by (simp add: logits_example_def)
  have f: "mha_reference_logits (-1000) logits_example (Some [[0, 0, 1, 1]]) False
             ! 0 ! 0 ! 1 ! 2 = -1000"
    using t [OF sh(1) sh(2) sh(4) sh(10) g, of False] by simp
  have h: "mha_reference_logits (-1000) logits_example (Some [[0, 0, 1, 1]]) True
             ! 0 ! 0 ! 3 ! 2 = 15"
    using t [OF sh(1) sh(2) sh(5) sh(11) g, of True] by (simp add: logits_example_def)
  from a b c d e f h show ?thesis by blast
qed

end
